theory Spec2Isabelle
  imports Complex_Main
begin

section \<open>JavaScript values\<close>

text \<open>
  The data the script handles at run time is parsed JSON: the bodies of the remote
  responses and the contents of \<^verbatim>\<open>captions.json\<close>. \<open>JUndefined\<close> is the value of a
  property that is absent. Numbers are IEEE doubles in the source; the only operation the
  script applies to a number it received is the truthiness test, so a number is kept as
  the real it denotes.
\<close>

datatype jsval =
    JUndefined
  | JNull
  | JBool bool
  | JNum real
  | JStr string
  | JArr "jsval list"
  | JObj "(string \<times> jsval) list"

text \<open>Truthiness, as \<^verbatim>\<open>if (v)\<close>, \<^verbatim>\<open>!v\<close>, \<^verbatim>\<open>a && b\<close> and \<^verbatim>\<open>a || b\<close> test it.\<close>

fun truthy :: "jsval \<Rightarrow> bool" where
  "truthy JUndefined = False"
| "truthy JNull = False"
| "truthy (JBool b) = b"
| "truthy (JNum n) = (n \<noteq> 0)"
| "truthy (JStr s) = (s \<noteq> [])"
| "truthy (JArr xs) = True"
| "truthy (JObj kv) = True"

fun nullish :: "jsval \<Rightarrow> bool" where
  "nullish JUndefined = True"
| "nullish JNull = True"
| "nullish v = False"

text \<open>
  \<open>getProp v k\<close> is the property read \<^verbatim>\<open>v.k\<close> on a receiver that is neither
  \<^verbatim>\<open>null\<close> nor \<^verbatim>\<open>undefined\<close>, for the property names the script reads
  (\<^verbatim>\<open>data\<close>, \<^verbatim>\<open>url\<close>, \<^verbatim>\<open>key\<close>, \<^verbatim>\<open>result\<close>, \<^verbatim>\<open>details\<close>, \<^verbatim>\<open>captions\<close>, ...): none of
  them is inherited from a prototype, so a primitive or an array has none of them.
  \<open>optChain v k\<close> is \<^verbatim>\<open>v?.k\<close>.
\<close>

fun getProp :: "jsval \<Rightarrow> string \<Rightarrow> jsval" where
  "getProp (JObj kv) k = (case map_of kv k of Some v \<Rightarrow> v | None \<Rightarrow> JUndefined)"
| "getProp v k = JUndefined"

definition optChain :: "jsval \<Rightarrow> string \<Rightarrow> jsval" where
  "optChain v k = (if nullish v then JUndefined else getProp v k)"

text \<open>The operator \<^verbatim>\<open>k in v\<close>: a TypeError (\<open>None\<close>) when \<open>v\<close> is not an object.\<close>

fun hasProp :: "string \<Rightarrow> jsval \<Rightarrow> bool option" where
  "hasProp k (JObj kv) = Some (map_of kv k \<noteq> None)"
| "hasProp k (JArr xs) = Some False"
| "hasProp k v = None"

text \<open>Reading an array element by index: out of range it is \<^verbatim>\<open>undefined\<close>.\<close>

definition elemAt :: "jsval list \<Rightarrow> int \<Rightarrow> jsval" where
  "elemAt xs i = (if 0 \<le> i \<and> i < int (length xs) then xs ! nat i else JUndefined)"

section \<open>Paths\<close>

text \<open>
  A path is the working directory or \<^verbatim>\<open>path.join(d, name)\<close>; \<^verbatim>\<open>path.basename\<close> gives
  the last component back.
\<close>

datatype path = Cwd | Join path string

fun basename :: "path \<Rightarrow> string" where
  "basename Cwd = []"
| "basename (Join d f) = f"

section \<open>Console output and errors\<close>

text \<open>
  A line of console output, and the message of an error, is a list of parts: literal text
  and the values interpolated into it.
\<close>

datatype part =
    Txt string
  | Val jsval
  | Json jsval
  | Loc path
  | SizeMB nat
  | Status nat

datatype error =
    Error "part list"
  | TypeError "part list"
  | AxiosError string
  | FsError string

fun message :: "error \<Rightarrow> part list" where
  "message (Error m) = m"
| "message (TypeError m) = m"
| "message (AxiosError m) = [Txt m]"
| "message (FsError m) = [Txt m]"

section \<open>The local file system\<close>

text \<open>
  The script touches three places under the working directory: the directories
  \<^verbatim>\<open>uploads\<close> and \<^verbatim>\<open>done\<close> and the file \<^verbatim>\<open>captions.json\<close>. A directory is absent
  (\<open>None\<close>) or a listing of regular files, name and contents, in the order
  \<^verbatim>\<open>readdirSync\<close> returns them. \<open>BadJson\<close> stands for a captions file on which
  \<^verbatim>\<open>readFileSync\<close> or \<^verbatim>\<open>JSON.parse\<close> throws.
\<close>

datatype captions_src = NoFile | BadJson | Parsed jsval

type_synonym listing = "(string \<times> string) list"

record fs_state =
  uploads_dir :: "listing option"
  done_dir :: "listing option"
  captions_json :: captions_src

definition uploadsDir :: path where
  "uploadsDir = Join Cwd ''uploads''"

definition doneDir :: path where
  "doneDir = Join Cwd ''done''"

definition read_dir :: "fs_state \<Rightarrow> path \<Rightarrow> listing option" where
  "read_dir s d =
     (if d = uploadsDir then uploads_dir s
      else if d = doneDir then done_dir s
      else None)"

definition write_dir :: "fs_state \<Rightarrow> path \<Rightarrow> listing \<Rightarrow> fs_state" where
  "write_dir s d es =
     (if d = uploadsDir then s\<lparr>uploads_dir := Some es\<rparr>
      else if d = doneDir then s\<lparr>done_dir := Some es\<rparr>
      else s)"

fun readFileSync :: "fs_state \<Rightarrow> path \<Rightarrow> string option" where
  "readFileSync s Cwd = None"
| "readFileSync s (Join d f) =
     (case read_dir s d of None \<Rightarrow> None | Some es \<Rightarrow> map_of es f)"

definition existsSync :: "fs_state \<Rightarrow> path \<Rightarrow> bool" where
  "existsSync s p =
     (p = Cwd \<or> read_dir s p \<noteq> None \<or> readFileSync s p \<noteq> None
      \<or> (p = Join Cwd ''captions.json'' \<and> captions_json s \<noteq> NoFile))"

definition mkdirSync :: "fs_state \<Rightarrow> path \<Rightarrow> fs_state" where
  "mkdirSync s d = (case read_dir s d of None \<Rightarrow> write_dir s d [] | Some es \<Rightarrow> s)"

definition remove_entry :: "string \<Rightarrow> listing \<Rightarrow> listing" where
  "remove_entry f es = filter (\<lambda>e. fst e \<noteq> f) es"

text \<open>
  \<^verbatim>\<open>renameSync(src, dst)\<close>: the source file must exist and so must the directory of the
  destination; a file already at the destination is replaced.
\<close>

fun renameSync :: "fs_state \<Rightarrow> path \<Rightarrow> path \<Rightarrow> error + fs_state" where
  "renameSync s (Join sd sf) (Join dd df) =
     (case read_dir s sd of
        None \<Rightarrow> Inl (FsError ''ENOENT: no such file or directory, rename'')
      | Some ses \<Rightarrow>
          (case map_of ses sf of
             None \<Rightarrow> Inl (FsError ''ENOENT: no such file or directory, rename'')
           | Some content \<Rightarrow>
               (let s1 = write_dir s sd (remove_entry sf ses)
                in case read_dir s1 dd of
                     None \<Rightarrow> Inl (FsError ''ENOENT: no such file or directory, rename'')
                   | Some des \<Rightarrow>
                       Inr (write_dir s1 dd (remove_entry df des @ [(df, content)])))))"
| "renameSync s src dst = Inl (FsError ''ENOENT: no such file or directory, rename'')"

text \<open>\<^verbatim>\<open>readdirSync\<close>; the script calls it on a directory it has just found to exist.\<close>

definition readdirSync :: "fs_state \<Rightarrow> path \<Rightarrow> string list" where
  "readdirSync s d = (case read_dir s d of None \<Rightarrow> [] | Some es \<Rightarrow> map fst es)"

section \<open>Strings\<close>

text \<open>
  A string is its list of bytes. \<^verbatim>\<open>toLowerCase\<close> is applied to a file name only to test
  whether the result ends in \<^verbatim>\<open>.mp4\<close>; the letters A to Z are the only characters whose
  lower case is an ASCII letter of that suffix, so the other bytes are left as they are.
\<close>

definition toLowerCase_char :: "char \<Rightarrow> char" where
  "toLowerCase_char c =
     (let n = (of_char c :: nat) in if 65 \<le> n \<and> n \<le> 90 then char_of (n + 32) else c)"

definition toLowerCase :: "string \<Rightarrow> string" where
  "toLowerCase s = map toLowerCase_char s"

definition endsWith :: "string \<Rightarrow> string \<Rightarrow> bool" where
  "endsWith s suf = (length suf \<le> length s \<and> drop (length s - length suf) s = suf)"

text \<open>\<^verbatim>\<open>n.toString()\<close> for a natural number: its decimal digits.\<close>

function decimal :: "nat \<Rightarrow> string" where
  "decimal n =
     (if n < 10 then [char_of (48 + n)]
      else decimal (n div 10) @ [char_of (48 + n mod 10)])"
  by pat_completeness auto
termination
  by (relation "measure id") auto

declare decimal.simps [simp del]

text \<open>The check mark the script prints, as its three UTF-8 bytes.\<close>

definition check_mark :: string where
  "check_mark = [CHR 0xE2, CHR 0x9C, CHR 0x93]"

section \<open>The world a run acts on\<close>

text \<open>
  A run reads its environment and changes three things: the file system, the remote
  service (through the HTTP calls it makes) and the console. The calls are recorded in
  order, each with the stage that made it, the request and what came back.
\<close>

datatype stage = Presign | S3Put | Register | CreatePost

datatype body =
    JsonBody jsval
  | FileBytes string
  | RpcArgs jsval

record request =
  http_method :: string
  url :: jsval
  headers :: "(string \<times> string) list"
  payload :: body

text \<open>
  What axios gives back: a response with a 2xx status and its parsed body; an error
  carrying the response (any other status: status, status text, body); or an error with
  no response at all (the network failed), of which only the message is read.
\<close>

datatype http_result =
    Response jsval
  | ErrorResponse nat string jsval
  | NoResponse string

type_synonym call = "stage \<times> request \<times> http_result"

record world =
  fs :: fs_state
  calls :: "call list"
  console :: "part list list"

definition say :: "part list \<Rightarrow> world \<Rightarrow> world" where
  "say line w = w\<lparr>console := console w @ [line]\<rparr>"

text \<open>
  The environment of one run: the process environment after \<^verbatim>\<open>dotenv.config()\<close>, the
  file system at the start, the value \<^verbatim>\<open>Math.random()\<close> returns, the library function
  \<^verbatim>\<open>mime.lookup\<close>, and the remote service as the answer it gives to each request.
\<close>

record env =
  process_env :: "string \<Rightarrow> string option"
  fs0 :: fs_state
  random :: real
  mime_lookup :: "path \<Rightarrow> string option"
  remote :: "request \<Rightarrow> http_result"

definition axios :: "env \<Rightarrow> stage \<Rightarrow> request \<Rightarrow> world \<Rightarrow> http_result \<times> world" where
  "axios e st rq w = (remote e rq, w\<lparr>calls := calls w @ [(st, rq, remote e rq)]\<rparr>)"

section \<open>Local steps of \<^verbatim>\<open>index.ts\<close>\<close>

subsection \<open>\<^verbatim>\<open>findVideoFile\<close>\<close>

definition is_mp4 :: "string \<Rightarrow> bool" where
  "is_mp4 file = endsWith (toLowerCase file) ''.mp4''"

definition findVideoFile :: "world \<Rightarrow> path option \<times> world" where
  "findVideoFile w =
     (if \<not> existsSync (fs w) uploadsDir
      then (None, say [Txt ''Created uploads directory''] (w\<lparr>fs := mkdirSync (fs w) uploadsDir\<rparr>))
      else
        (let files = readdirSync (fs w) uploadsDir;
             mp4Files = filter is_mp4 files
         in if length mp4Files = 0 then (None, w)
            else (Some (Join uploadsDir (hd mp4Files)), w)))"

subsection \<open>\<^verbatim>\<open>moveVideoToDone\<close>\<close>

definition moveVideoToDone :: "path \<Rightarrow> world \<Rightarrow> (error + unit) \<times> world" where
  "moveVideoToDone videoPath w =
     (let w1 = (if \<not> existsSync (fs w) doneDir then w\<lparr>fs := mkdirSync (fs w) doneDir\<rparr> else w);
          fileName = basename videoPath;
          destinationPath = Join doneDir fileName
      in case renameSync (fs w1) videoPath destinationPath of
           Inl err \<Rightarrow> (Inl err, w1)
         | Inr s \<Rightarrow>
             (Inr (),
              say [Txt (check_mark @ '' Video moved to done folder: ''), Loc destinationPath]
                (w1\<lparr>fs := s\<rparr>)))"

subsection \<open>\<^verbatim>\<open>getRandomCaption\<close>\<close>

definition defaultCaption :: jsval where
  "defaultCaption = JStr ''Check out this video!''"

definition randomIndex :: "real \<Rightarrow> nat \<Rightarrow> int" where
  "randomIndex r n = \<lfloor>r * real n\<rfloor>"

definition getRandomCaption :: "env \<Rightarrow> world \<Rightarrow> jsval \<times> world" where
  "getRandomCaption e w =
     (case captions_json (fs w) of
        NoFile \<Rightarrow>
          (defaultCaption, say [Txt ''captions.json not found, using default caption''] w)
      | BadJson \<Rightarrow>
          (defaultCaption,
           say [Txt ''Error reading captions.json: '', Txt ''parse error'',
                Txt '', using default caption''] w)
      | Parsed captionsFile \<Rightarrow>
          (if nullish captionsFile
           then (defaultCaption,
                 say [Txt ''Error reading captions.json: '', Txt ''TypeError'',
                      Txt '', using default caption''] w)
           else
             (case getProp captionsFile ''captions'' of
                JArr cs \<Rightarrow>
                  (if length cs = 0
                   then (defaultCaption,
                         say [Txt ''No captions found in captions.json, using default caption''] w)
                   else (elemAt cs (randomIndex (random e) (length cs)), w))
              | other \<Rightarrow>
                  (defaultCaption,
                   say [Txt ''No captions found in captions.json, using default caption''] w))))"

section \<open>The class \<^verbatim>\<open>BufferUploader\<close>\<close>

record uploader =
  cookies :: string
  organizationId :: string
  channelId :: string
  userId :: string
  graphQLEndpoint :: string
  composerApiEndpoint :: string

text \<open>\<^verbatim>\<open>process.env.X || ''\<close>: an unset variable and an empty one both read as the empty string.\<close>

definition env_or_empty :: "(string \<Rightarrow> string option) \<Rightarrow> string \<Rightarrow> string" where
  "env_or_empty penv k = (case penv k of None \<Rightarrow> [] | Some v \<Rightarrow> v)"

definition new_BufferUploader :: "(string \<Rightarrow> string option) \<Rightarrow> error + uploader" where
  "new_BufferUploader penv =
     (let this = \<lparr>cookies = env_or_empty penv ''BUFFER_COOKIES'',
                   organizationId = env_or_empty penv ''BUFFER_ORGANIZATION_ID'',
                   channelId = env_or_empty penv ''BUFFER_CHANNEL_ID'',
                   userId = env_or_empty penv ''BUFFER_USER_ID'',
                   graphQLEndpoint = ''https://graph.buffer.com/?_o=s3PreSignedURL'',
                   composerApiEndpoint = ''https://publish.buffer.com/rpc/composerApiProxy''\<rparr>
      in if cookies this = [] \<or> organizationId this = [] \<or> channelId this = []
         then Inl (Error [Txt ''Missing required environment variables. Please check your .env file.''])
         else Inr this)"

definition user_agent :: string where
  "user_agent = ''Mozilla/5.0 (Macintosh; Intel Mac OS X 10_15_7) AppleWebKit/537.36 (KHTML, like Gecko) Chrome/142.0.0.0 Safari/537.36''"

definition quoted :: "string \<Rightarrow> string" where
  "quoted s = [CHR 0x27] @ s @ [CHR 0x27]"

definition newline :: string where
  "newline = [CHR 0x0A]"

definition s3PreSignedURL_query :: string where
  "s3PreSignedURL_query =
     newline @ ''      query s3PreSignedURL($input: S3PreSignedURLInput!) {'' @
     newline @ ''        s3PreSignedURL(input: $input) {'' @
     newline @ ''          url'' @
     newline @ ''          key'' @
     newline @ ''          bucket'' @
     newline @ ''        }'' @
     newline @ ''      }'' @
     newline @ ''    ''"

subsection \<open>Stage 1: \<^verbatim>\<open>getS3PreSignedURL\<close>\<close>

definition presign_request :: "uploader \<Rightarrow> string \<Rightarrow> string \<Rightarrow> request" where
  "presign_request this fileName mimeType =
     \<lparr>http_method = ''POST'',
      url = JStr (graphQLEndpoint this),
      headers =
        [(''Content-Type'', ''application/json''),
         (''Cookie'', cookies this),
         (''x-buffer-client-id'', ''webapp-publishing''),
         (''Origin'', ''https://publish.buffer.com''),
         (''Referer'', ''https://publish.buffer.com/''),
         (''User-Agent'', user_agent)],
      payload = JsonBody (JObj
        [(''operationName'', JStr ''s3PreSignedURL''),
         (''variables'', JObj [(''input'', JObj
            [(''organizationId'', JStr (organizationId this)),
             (''fileName'', JStr fileName),
             (''mimeType'', JStr mimeType),
             (''uploadType'', JStr ''postAsset'')])]),
         (''query'', JStr s3PreSignedURL_query)])\<rparr>"

definition presigned :: "jsval \<Rightarrow> jsval" where
  "presigned data = optChain (optChain data ''data'') ''s3PreSignedURL''"

definition getS3PreSignedURL ::
  "env \<Rightarrow> uploader \<Rightarrow> string \<Rightarrow> string \<Rightarrow> world \<Rightarrow> (error + jsval \<times> jsval) \<times> world" where
  "getS3PreSignedURL e this fileName mimeType w =
     (case axios e Presign (presign_request this fileName mimeType) w of
        (Response data, w1) \<Rightarrow>
          (if truthy (optChain (presigned data) ''url'') \<and> truthy (optChain (presigned data) ''key'')
           then (Inr (getProp (presigned data) ''url'', getProp (presigned data) ''key''), w1)
           else (Inl (Error [Txt ''Failed to get S3 pre-signed URL'']), w1))
      | (ErrorResponse status statusText data, w1) \<Rightarrow>
          (Inl (Error [Txt ''Failed to get S3 pre-signed URL: '', Json data]),
           say [Txt ''GraphQL Error Response:'', Val data] w1)
      | (NoResponse m, w1) \<Rightarrow> (Inl (AxiosError m), w1))"

subsection \<open>Stage 2: \<^verbatim>\<open>uploadToS3\<close>\<close>

definition s3_request :: "jsval \<Rightarrow> string \<Rightarrow> string \<Rightarrow> request" where
  "s3_request preSignedURL fileBuffer mimeType =
     \<lparr>http_method = ''PUT'',
      url = preSignedURL,
      headers =
        [(''Content-Type'', mimeType),
         (''Content-Length'', decimal (length fileBuffer)),
         (''Origin'', ''https://publish.buffer.com''),
         (''Referer'', ''https://publish.buffer.com/''),
         (''User-Agent'', user_agent)],
      payload = FileBytes fileBuffer\<rparr>"

definition uploadToS3 ::
  "env \<Rightarrow> jsval \<Rightarrow> path \<Rightarrow> string \<Rightarrow> world \<Rightarrow> (error + unit) \<times> world" where
  "uploadToS3 e preSignedURL filePath mimeType w =
     (case readFileSync (fs w) filePath of
        None \<Rightarrow> (Inl (FsError ''ENOENT: no such file or directory, open''), w)
      | Some fileBuffer \<Rightarrow>
          (case axios e S3Put (s3_request preSignedURL fileBuffer mimeType) w of
             (Response data, w1) \<Rightarrow>
               (Inr (), say [Txt (check_mark @ '' Video uploaded to S3 successfully'')] w1)
           | (ErrorResponse status statusText data, w1) \<Rightarrow>
               (Inl (Error [Txt ''Failed to upload to S3: '', Txt statusText]),
                say [Txt ''S3 Upload Error Response:'', Status status, Txt statusText] w1)
           | (NoResponse m, w1) \<Rightarrow> (Inl (AxiosError m), w1)))"

subsection \<open>Stage 3: \<^verbatim>\<open>registerUpload\<close>\<close>

text \<open>\<open>RpcArgs v\<close> is the envelope \<^verbatim>\<open>{ args: JSON.stringify(v) }\<close> of the RPC proxy.\<close>

definition composer_headers :: "uploader \<Rightarrow> (string \<times> string) list" where
  "composer_headers this =
     [(''Content-Type'', ''application/json''),
      (''Cookie'', cookies this),
      (''Origin'', ''https://publish.buffer.com''),
      (''Referer'', ''https://publish.buffer.com/channels/'' @ channelId this),
      (''User-Agent'', user_agent)]"

definition register_request :: "uploader \<Rightarrow> jsval \<Rightarrow> request" where
  "register_request this s3Key =
     \<lparr>http_method = ''POST'',
      url = JStr (composerApiEndpoint this),
      headers = composer_headers this,
      payload = RpcArgs (JObj
        [(''url'', JStr ''/i/uploads/upload_media.json''),
         (''args'', JObj [(''key'', s3Key), (''serviceForceTranscodeVideo'', JBool False)]),
         (''HTTPMethod'', JStr ''POST'')])\<rparr>"

definition registerUpload ::
  "env \<Rightarrow> uploader \<Rightarrow> jsval \<Rightarrow> world \<Rightarrow> (error + jsval) \<times> world" where
  "registerUpload e this s3Key w =
     (case axios e Register (register_request this s3Key) w of
        (Response data, w1) \<Rightarrow>
          (let w2 = say [Txt ''Register upload response:'', Json data] w1
           in if \<not> truthy data
              then (Inl (Error [Txt ''Failed to register upload: Unexpected response structure'']), w2)
              else
                (case hasProp ''result'' data of
                   None \<Rightarrow>
                     (Inl (TypeError [Txt (''Cannot use '' @ quoted ''in'' @ '' operator to search for ''
                             @ quoted ''result'' @ '' in ''), Val data]), w2)
                 | Some present \<Rightarrow>
                     (if present \<and> truthy (getProp data ''result'')
                      then (Inr data, w2)
                      else (Inl (Error [Txt ''Failed to register upload: Unexpected response structure'']), w2))))
      | (ErrorResponse status statusText data, w1) \<Rightarrow>
          (Inl (Error [Txt ''Failed to register upload: '', Json data]),
           say [Txt ''Register Upload Error Response:'', Status status, Val data] w1)
      | (NoResponse m, w1) \<Rightarrow> (Inl (AxiosError m), w1))"

subsection \<open>Stage 4: \<^verbatim>\<open>createPost\<close>\<close>

definition postData :: "uploader \<Rightarrow> jsval \<Rightarrow> jsval \<Rightarrow> jsval \<Rightarrow> jsval" where
  "postData this result details text =
     JObj
       [(''share_mode'', JStr ''shareNow''),
        (''now'', JBool True),
        (''top'', JBool False),
        (''is_draft'', JBool False),
        (''shorten'', JBool True),
        (''text'', text),
        (''scheduling_type'', JStr ''direct''),
        (''fb_text'', JStr []),
        (''entities'', JNull),
        (''annotations'', JArr []),
        (''profile_ids'', JArr [JStr (channelId this)]),
        (''attachment'', JBool False),
        (''via'', JNull),
        (''duplicated_from'', JNull),
        (''created_source'', JStr ''channel''),
        (''channel_data'', JObj [(''instagram'', JObj [(''share_to_feed'', JBool True)])]),
        (''tags'', JArr []),
        (''update_type'', JStr ''reels''),
        (''media'', JObj
           [(''progress'', JNum 100),
            (''uploaded'', JBool True),
            (''uploading_type'', JStr ''video''),
            (''video'', JObj
               [(''title'', getProp result ''title''),
                (''id'', getProp result ''upload_id''),
                (''details'', JObj
                   [(''location'', getProp details ''location''),
                    (''transcoded_location'', getProp details ''location''),
                    (''file_size'', getProp details ''file_size''),
                    (''duration'', getProp details ''duration''),
                    (''duration_millis'', getProp details ''duration_millis''),
                    (''width'', getProp details ''width''),
                    (''height'', getProp details ''height'')]),
                (''thumb_offset'', JNum 0),
                (''thumbnails'', JArr [])]),
            (''thumbnail'', JStr [])]),
        (''ai_assisted'', JBool False),
        (''channelGroupIds'', JArr [])]"

definition post_request :: "uploader \<Rightarrow> jsval \<Rightarrow> request" where
  "post_request this pd =
     \<lparr>http_method = ''POST'',
      url = JStr (composerApiEndpoint this),
      headers = composer_headers this,
      payload = RpcArgs (JObj
        [(''url'', JStr ''/1/updates/create.json''),
         (''args'', pd),
         (''HTTPMethod'', JStr ''POST'')])\<rparr>"

text \<open>The default of the parameter \<^verbatim>\<open>text: string = ''\<close> applies to \<^verbatim>\<open>undefined\<close> only.\<close>

definition text_or_default :: "jsval \<Rightarrow> jsval" where
  "text_or_default t = (if t = JUndefined then JStr [] else t)"

definition createPost ::
  "env \<Rightarrow> uploader \<Rightarrow> jsval \<Rightarrow> jsval \<Rightarrow> world \<Rightarrow> (error + unit) \<times> world" where
  "createPost e this uploadResponse text0 w =
     (let text = text_or_default text0 in
      if \<not> truthy (getProp uploadResponse ''result'')
         \<or> \<not> truthy (getProp (getProp uploadResponse ''result'') ''details'')
      then (Inl (Error [Txt ''Video details not found in upload response'']), w)
      else
        (let result = getProp uploadResponse ''result'';
             details = getProp result ''details''
         in case axios e CreatePost (post_request this (postData this result details text)) w of
              (Response data, w1) \<Rightarrow>
                (Inr (),
                 say [Txt ''Response:'', Json data]
                   (say [Txt (check_mark @ '' Post created successfully'')] w1))
            | (ErrorResponse status statusText data, w1) \<Rightarrow>
                (Inl (Error [Txt ''Failed to create post: '', Json data]),
                 say [Txt ''Create Post Error Response:'', Status status, Val data] w1)
            | (NoResponse m, w1) \<Rightarrow> (Inl (AxiosError m), w1)))"

subsection \<open>\<^verbatim>\<open>uploadVideo\<close>: the four stages in sequence\<close>

text \<open>\<^verbatim>\<open>mime.lookup(filePath) || 'video/mp4'\<close>; the library returns \<^verbatim>\<open>false\<close> (\<open>None\<close>) or a string.\<close>

definition mimeType_of :: "env \<Rightarrow> path \<Rightarrow> string" where
  "mimeType_of e filePath =
     (case mime_lookup e filePath of
        None \<Rightarrow> ''video/mp4''
      | Some m \<Rightarrow> if m = [] then ''video/mp4'' else m)"

text \<open>
  \<^verbatim>\<open>uploadVideo\<close> checks that the file exists, reads its size with \<^verbatim>\<open>statSync\<close> (the size
  is the length of the contents; \<^verbatim>\<open>statSync\<close> throws when the file is missing), and runs the
  four stages; an error thrown by a stage ends it there.
\<close>

definition uploadVideo ::
  "env \<Rightarrow> uploader \<Rightarrow> path \<Rightarrow> jsval \<Rightarrow> world \<Rightarrow> (error + unit) \<times> world" where
  "uploadVideo e this filePath text w =
     (let w1 = say [Txt ''Starting upload of '', Loc filePath, Txt ''...''] w in
      if \<not> existsSync (fs w1) filePath
      then (Inl (Error [Txt ''File not found: '', Loc filePath]), w1)
      else
        (let fileName = basename filePath;
             mimeType = mimeType_of e filePath
         in case readFileSync (fs w1) filePath of
              None \<Rightarrow> (Inl (FsError ''ENOENT: no such file or directory, stat''), w1)
            | Some contents \<Rightarrow>
                (let w2 = say [Txt (newline @ ''1. Getting S3 pre-signed URL...'')]
                           (say [Txt ''MIME Type: '', Txt mimeType]
                             (say [Txt ''Size: '', SizeMB (length contents), Txt '' MB'']
                               (say [Txt ''File: '', Txt fileName] w1)))
                 in case getS3PreSignedURL e this fileName mimeType w2 of
                      (Inl err, w3) \<Rightarrow> (Inl err, w3)
                    | (Inr (preSignedURL, s3Key), w3) \<Rightarrow>
                        (let w4 = say [Txt (newline @ ''2. Uploading video to S3...'')]
                                   (say [Txt (check_mark @ '' Got S3 pre-signed URL'')] w3)
                         in case uploadToS3 e preSignedURL filePath mimeType w4 of
                              (Inl err, w5) \<Rightarrow> (Inl err, w5)
                            | (Inr u, w5) \<Rightarrow>
                                (let w6 = say [Txt (newline @ ''3. Registering upload with Buffer...'')] w5
                                 in case registerUpload e this s3Key w6 of
                                      (Inl err, w7) \<Rightarrow> (Inl err, w7)
                                    | (Inr uploadResponse, w7) \<Rightarrow>
                                        (let w8 = say [Txt (newline @ ''4. Creating post in Buffer...'')]
                                                   (say [Txt (check_mark @ '' Upload registered, video ID:''),
                                                         Val (optChain (getProp uploadResponse ''result'') ''upload_id'')] w7)
                                         in case createPost e this uploadResponse text w8 of
                                              (Inl err, w9) \<Rightarrow> (Inl err, w9)
                                            | (Inr u', w9) \<Rightarrow>
                                                (Inr (), say [Txt (newline @ check_mark @ '' Upload complete!'')] w9)))))))"

section \<open>\<^verbatim>\<open>main\<close>\<close>

text \<open>
  A run ends with an exit status and the world it leaves: \<^verbatim>\<open>process.exit(0)\<close> when no
  video is found, status 0 when \<^verbatim>\<open>main\<close> returns, and \<^verbatim>\<open>process.exit(1)\<close> from the
  \<^verbatim>\<open>catch\<close> block, which prints the message of whatever was thrown.
\<close>

record outcome =
  exit_code :: nat
  after :: world

definition exit_failure :: "error \<Rightarrow> world \<Rightarrow> outcome" where
  "exit_failure err w = \<lparr>exit_code = 1, after = say (Txt ''Error:'' # message err) w\<rparr>"

definition start :: "env \<Rightarrow> world" where
  "start e = \<lparr>fs = fs0 e, calls = [], console = []\<rparr>"

definition main :: "env \<Rightarrow> outcome" where
  "main e =
     (case findVideoFile (start e) of
        (None, w1) \<Rightarrow> \<lparr>exit_code = 0, after = w1\<rparr>
      | (Some videoPath, w1) \<Rightarrow>
          (case getRandomCaption e w1 of
             (caption, w2) \<Rightarrow>
               (let w3 = say [Txt ''Selected caption: '', Val caption] w2
                in case new_BufferUploader (process_env e) of
                     Inl err \<Rightarrow> exit_failure err w3
                   | Inr uploader \<Rightarrow>
                       (case uploadVideo e uploader videoPath caption w3 of
                          (Inl err, w4) \<Rightarrow> exit_failure err w4
                        | (Inr u, w4) \<Rightarrow>
                            (case moveVideoToDone videoPath w4 of
                               (Inl err, w5) \<Rightarrow> exit_failure err w5
                             | (Inr u', w5) \<Rightarrow>
                                 \<lparr>exit_code = 0,
                                  after = say [Txt (newline @ check_mark @ '' Process complete!'')] w5\<rparr>)))))"

section \<open>Vocabulary of the properties\<close>

text \<open>
  The field a stage requires of the body of a 2xx response: the presign stage needs a
  truthy \<^verbatim>\<open>url\<close> and \<^verbatim>\<open>key\<close> under \<^verbatim>\<open>data.s3PreSignedURL\<close>; the registration stage needs
  a truthy \<^verbatim>\<open>result\<close>, of which \<^verbatim>\<open>createPost\<close> then needs a truthy \<^verbatim>\<open>details\<close>. The
  S3 PUT and the post creation read nothing from the body. An absent field reads as
  \<open>JUndefined\<close>, which is not truthy.
\<close>

fun lacks_required_field :: "stage \<Rightarrow> jsval \<Rightarrow> bool" where
  "lacks_required_field Presign d =
     (\<not> truthy (optChain (presigned d) ''url'') \<or> \<not> truthy (optChain (presigned d) ''key''))"
| "lacks_required_field S3Put d = False"
| "lacks_required_field Register d =
     (\<not> truthy (getProp d ''result'') \<or> \<not> truthy (getProp (getProp d ''result'') ''details''))"
| "lacks_required_field CreatePost d = False"

text \<open>
  A call failed when its response lacks a required field, or when there is no 2xx
  response at all.
\<close>

fun stage_failed :: "call \<Rightarrow> bool" where
  "stage_failed (st, rq, Response d) = lacks_required_field st d"
| "stage_failed (st, rq, r) = True"

definition stage_order :: "stage list" where
  "stage_order = [Presign, S3Put, Register, CreatePost]"

text \<open>
  The shape every trace of calls has: the stages in their order, none but the last call
  failed, and the upload succeeded (\<open>ok\<close>) exactly when all four calls were made and none
  failed.
\<close>

definition valid_trace :: "bool \<Rightarrow> call list \<Rightarrow> bool" where
  "valid_trace ok cs =
     (map fst cs = take (length cs) stage_order
      \<and> list_all (\<lambda>c. \<not> stage_failed c) (butlast cs)
      \<and> (ok = (length cs = 4 \<and> list_all (\<lambda>c. \<not> stage_failed c) cs)))"

text \<open>
  The request \<^verbatim>\<open>createPost\<close> sends for a registration response and a caption.
\<close>

definition post_request_of :: "uploader \<Rightarrow> jsval \<Rightarrow> jsval \<Rightarrow> request" where
  "post_request_of u resp t =
     post_request u (postData u (getProp resp ''result'')
       (getProp (getProp resp ''result'') ''details'') (text_or_default t))"

text \<open>
  The video files of the intake directory, as \<^verbatim>\<open>findVideoFile\<close> sees them: the names
  ending in \<^verbatim>\<open>.mp4\<close> in any letter case; none when the directory is absent.
\<close>

definition video_files :: "fs_state \<Rightarrow> string list" where
  "video_files s = filter is_mp4 (readdirSync s uploadsDir)"

text \<open>
  The file system after the file \<open>f\<close> of the intake directory has been moved to the
  completion directory.
\<close>

definition moved :: "string \<Rightarrow> fs_state \<Rightarrow> fs_state" where
  "moved f s =
     s\<lparr>uploads_dir := Some (remove_entry f (the (uploads_dir s))),
       done_dir := Some (remove_entry f (case done_dir s of None \<Rightarrow> [] | Some des \<Rightarrow> des)
                         @ [(f, the (readFileSync s (Join uploadsDir f)))])\<rparr>"

text \<open>
  The caption, the world and the candidate file with which \<^verbatim>\<open>main\<close> reaches the uploader.
\<close>

definition caption_of :: "env \<Rightarrow> jsval" where
  "caption_of e = fst (getRandomCaption e (start e))"

definition ready :: "env \<Rightarrow> world" where
  "ready e = say [Txt ''Selected caption: '', Val (caption_of e)] (snd (getRandomCaption e (start e)))"

definition candidate :: "env \<Rightarrow> path" where
  "candidate e = Join uploadsDir (hd (video_files (fs0 e)))"


text \<open>
  A required credential (session cookie, organization id, channel id) is unset or empty.
\<close>

definition required_missing :: "(string \<Rightarrow> string option) \<Rightarrow> bool" where
  "required_missing penv =
     (env_or_empty penv ''BUFFER_COOKIES'' = []
      \<or> env_or_empty penv ''BUFFER_ORGANIZATION_ID'' = []
      \<or> env_or_empty penv ''BUFFER_CHANNEL_ID'' = [])"

text \<open>
  The publishing constants of a post payload, and the payload a request to the RPC proxy
  carries as \<^verbatim>\<open>args\<close>.
\<close>

definition hard_coded_constants :: "string \<Rightarrow> jsval \<Rightarrow> bool" where
  "hard_coded_constants channel pd =
     (getProp pd ''share_mode'' = JStr ''shareNow''
      \<and> getProp pd ''now'' = JBool True
      \<and> getProp pd ''is_draft'' = JBool False
      \<and> getProp pd ''update_type'' = JStr ''reels''
      \<and> getProp pd ''profile_ids'' = JArr [JStr channel])"

definition post_args :: "request \<Rightarrow> jsval" where
  "post_args rq = (case payload rq of RpcArgs a \<Rightarrow> getProp a ''args'' | other \<Rightarrow> JUndefined)"

section \<open>Example environments\<close>

text \<open>
  An intake directory with one video \<^verbatim>\<open>clip.MP4\<close> and one other file, a captions file with
  two captions, valid credentials without a user id, and a remote service that answers the
  presign request with \<open>presign\<close>, the registration with \<open>reg\<close>, and everything else
  with success.
\<close>

definition demo_fs :: fs_state where
  "demo_fs =
     \<lparr>uploads_dir = Some [(''notes.txt'', ''n''), (''clip.MP4'', ''abc'')],
      done_dir = None,
      captions_json = Parsed (JObj [(''captions'', JArr [JStr ''A'', JStr ''B''])])\<rparr>"

definition demo_penv :: "string \<Rightarrow> string option" where
  "demo_penv =
     [''BUFFER_COOKIES'' \<mapsto> ''buffer_session=s'',
      ''BUFFER_ORGANIZATION_ID'' \<mapsto> ''org1'',
      ''BUFFER_CHANNEL_ID'' \<mapsto> ''chan1'']"

definition demo_record :: jsval where
  "demo_record =
     JObj [(''success'', JBool True), (''upload_id'', JStr ''u1''), (''title'', JStr ''clip''),
           (''details'', JObj [(''location'', JStr ''https://cdn/clip.mp4''), (''file_size'', JNum 3),
                              (''width'', JNum 1080), (''height'', JNum 1920)])]"

definition good_presign :: jsval where
  "good_presign =
     JObj [(''data'', JObj [(''s3PreSignedURL'',
        JObj [(''url'', JStr ''https://s3/put''), (''key'', JStr ''k1''), (''bucket'', JStr ''b'')])])]"

definition demo_remote :: "jsval \<Rightarrow> jsval \<Rightarrow> request \<Rightarrow> http_result" where
  "demo_remote presign reg rq =
     (case payload rq of
        JsonBody b \<Rightarrow> Response presign
      | FileBytes b \<Rightarrow> Response (JStr [])
      | RpcArgs a \<Rightarrow>
          if getProp a ''url'' = JStr ''/i/uploads/upload_media.json''
          then Response reg
          else Response (JObj [(''success'', JBool True)]))"

definition demo_env :: "jsval \<Rightarrow> jsval \<Rightarrow> env" where
  "demo_env presign reg =
     \<lparr>process_env = demo_penv, fs0 = demo_fs, random = 1 / 2,
      mime_lookup = (\<lambda>p. Some ''video/mp4''), remote = demo_remote presign reg\<rparr>"

definition ok_env :: env where
  "ok_env = demo_env good_presign (JObj [(''result'', demo_record)])"

definition no_url_env :: env where
  "no_url_env =
     demo_env (JObj [(''data'', JObj [(''s3PreSignedURL'', JObj [(''key'', JStr ''k1'')])])])
       (JObj [(''result'', demo_record)])"



definition double_nested :: jsval where
  "double_nested = JObj [(''result'', JObj [(''result'', demo_record)])]"

definition double_nested_env :: env where
  "double_nested_env = demo_env good_presign double_nested"

definition empty_fs :: fs_state where
  "empty_fs = \<lparr>uploads_dir = Some [], done_dir = None, captions_json = NoFile\<rparr>"

definition no_credentials_env :: env where
  "no_credentials_env = ok_env\<lparr>process_env := (\<lambda>k. None), fs0 := empty_fs\<rparr>"

definition video_no_credentials_env :: env where
  "video_no_credentials_env = ok_env\<lparr>process_env := (\<lambda>k. None)\<rparr>"

definition fresh_env :: env where
  "fresh_env = ok_env\<lparr>fs0 := \<lparr>uploads_dir = None, done_dir = None, captions_json = NoFile\<rparr>\<rparr>"

definition demo_uploader :: uploader where
  "demo_uploader =
     \<lparr>cookies = ''buffer_session=s'', organizationId = ''org1'', channelId = ''chan1'',
      userId = [], graphQLEndpoint = ''https://graph.buffer.com/?_o=s3PreSignedURL'',
      composerApiEndpoint = ''https://publish.buffer.com/rpc/composerApiProxy''\<rparr>"

section \<open>What each stage does to the world\<close>

lemma say_simps [simp]:
  "fs (say l w) = fs w" "calls (say l w) = calls w" "console (say l w) = console w @ [l]"
  by (simp_all add: say_def)

lemma register_accept_iff:
  "(truthy d \<and> hasProp ''result'' d = Some True \<and> truthy (getProp d ''result''))
     = truthy (getProp d ''result'')"
  by (cases d) (auto split: option.splits)

lemma getS3PreSignedURL_result:
  assumes "getS3PreSignedURL e u f m w = (r, w')"
  shows "fs w' = fs w
    \<and> calls w' = calls w @ [(Presign, presign_request u f m, remote e (presign_request u f m))]
    \<and> isl r = stage_failed (Presign, presign_request u f m, remote e (presign_request u f m))"
  using assms unfolding getS3PreSignedURL_def axios_def
  by (cases "remote e (presign_request u f m)") (auto split: if_splits)

lemma uploadToS3_result:
  assumes "uploadToS3 e pu p m w = (r, w')"
  shows "fs w' = fs w
    \<and> (case readFileSync (fs w) p of
         None \<Rightarrow> calls w' = calls w \<and> isl r
       | Some b \<Rightarrow>
           calls w' = calls w @ [(S3Put, s3_request pu b m, remote e (s3_request pu b m))]
           \<and> isl r = stage_failed (S3Put, s3_request pu b m, remote e (s3_request pu b m)))"
proof (cases "readFileSync (fs w) p")
  case None
  with assms show ?thesis by (auto simp: uploadToS3_def)
next
  case (Some b)
  with assms show ?thesis unfolding uploadToS3_def axios_def
    by (cases "remote e (s3_request pu b m)") auto
qed

lemma registerUpload_result:
  assumes "registerUpload e u k w = (r, w')"
  shows "fs w' = fs w
    \<and> calls w' = calls w @ [(Register, register_request u k, remote e (register_request u k))]
    \<and> (case r of
          Inl err \<Rightarrow> stage_failed (Register, register_request u k, remote e (register_request u k))
        | Inr resp \<Rightarrow> remote e (register_request u k) = Response resp
                      \<and> truthy (getProp resp ''result''))"
proof (cases "remote e (register_request u k)")
  case (Response d)
  show ?thesis
  proof (cases "truthy (getProp d ''result'')")
    case True
    then have "truthy d" "hasProp ''result'' d = Some True"
      using register_accept_iff [of d] by auto
    with True Response assms show ?thesis
      unfolding registerUpload_def axios_def by (auto simp: Let_def)
  next
    case False
    with Response assms show ?thesis
      unfolding registerUpload_def axios_def
      by (auto simp: Let_def split: if_splits option.splits)
  qed
next
  case (ErrorResponse a b c)
  with assms show ?thesis unfolding registerUpload_def axios_def by auto
next
  case (NoResponse m)
  with assms show ?thesis unfolding registerUpload_def axios_def by auto
qed

lemma createPost_result:
  assumes "createPost e u resp t w = (r, w')"
  shows "fs w' = fs w
    \<and> (if truthy (getProp resp ''result'') \<and> truthy (getProp (getProp resp ''result'') ''details'')
        then calls w' = calls w @ [(CreatePost, post_request_of u resp t, remote e (post_request_of u resp t))]
             \<and> isl r = stage_failed (CreatePost, post_request_of u resp t, remote e (post_request_of u resp t))
        else calls w' = calls w \<and> isl r)"
proof (cases "truthy (getProp resp ''result'') \<and> truthy (getProp (getProp resp ''result'') ''details'')")
  case True
  from True assms show ?thesis
    unfolding createPost_def axios_def post_request_of_def
    by (cases "remote e (post_request u (postData u (getProp resp ''result'')
       (getProp (getProp resp ''result'') ''details'') (text_or_default t)))") (auto simp: Let_def)
next
  case False
  with assms show ?thesis unfolding createPost_def by (auto simp: Let_def)
qed

section \<open>The trace of \<^verbatim>\<open>uploadVideo\<close>\<close>

text \<open>
  Started with no call made yet, \<^verbatim>\<open>uploadVideo\<close> leaves the file system alone, makes its
  calls in stage order and stops at the first that fails; its first call is the presign
  request for the base name of the file, and a post creation request is always built by
  \<open>post_request_of\<close>.
\<close>

lemma uploadVideo_trace:
  assumes "calls w = []" and "uploadVideo e u p t w = (r, w')"
  shows "fs w' = fs w \<and> valid_trace (\<not> isl r) (calls w')
    \<and> (readFileSync (fs w) p \<noteq> None \<longrightarrow>
         take 1 (calls w') =
           [(Presign, presign_request u (basename p) (mimeType_of e p),
             remote e (presign_request u (basename p) (mimeType_of e p)))])
    \<and> (\<forall>c \<in> set (calls w'). fst c = CreatePost \<longrightarrow>
         fst (snd c) \<in> range (\<lambda>resp. post_request_of u resp t))"
proof (cases "readFileSync (fs w) p")
  case None
  with assms show ?thesis
    unfolding uploadVideo_def
    by (auto simp: Let_def valid_trace_def split: if_splits)
next
  case (Some contents)
  then have ex: "existsSync (fs w) p" by (simp add: existsSync_def)
  define w2 where "w2 = say [Txt (newline @ ''1. Getting S3 pre-signed URL...'')]
                           (say [Txt ''MIME Type: '', Txt (mimeType_of e p)]
                             (say [Txt ''Size: '', SizeMB (length contents), Txt '' MB'']
                               (say [Txt ''File: '', Txt (basename p)]
                                 (say [Txt ''Starting upload of '', Loc p, Txt ''...''] w))))"
  have w2: "fs w2 = fs w" "calls w2 = []" using assms(1) by (simp_all add: w2_def)
  obtain r1 w3 where g1: "getS3PreSignedURL e u (basename p) (mimeType_of e p) w2 = (r1, w3)" by fastforce
  note s1 = getS3PreSignedURL_result [OF g1]
  show ?thesis
  proof (cases r1)
    case (Inl err)
    with assms(2) Some ex g1 have "r = Inl err" "w' = w3"
      unfolding uploadVideo_def by (simp_all add: Let_def w2_def [symmetric])
    with s1 w2 Inl show ?thesis by (simp add: valid_trace_def stage_order_def)
  next
    case (Inr uk)
    obtain pu k where uk: "uk = (pu, k)" by (cases uk)
    define w4 where "w4 = say [Txt (newline @ ''2. Uploading video to S3...'')]
                                   (say [Txt (check_mark @ '' Got S3 pre-signed URL'')] w3)"
    obtain r2 w5 where g2: "uploadToS3 e pu p (mimeType_of e p) w4 = (r2, w5)" by fastforce
    have w4: "fs w4 = fs w" "calls w4 = calls w3" using s1 w2 by (simp_all add: w4_def)
    note s2 = uploadToS3_result [OF g2, unfolded w4 Some, simplified]
    show ?thesis
    proof (cases r2)
      case (Inl err)
      with assms(2) Some ex g1 g2 Inr uk have "r = Inl err" "w' = w5"
        unfolding uploadVideo_def
        by (simp_all add: Let_def w2_def [symmetric] w4_def [symmetric])
      with s1 s2 w2 Inl Inr show ?thesis by (simp add: valid_trace_def stage_order_def)
    next
      case r2: (Inr u2)
      define w6 where "w6 = say [Txt (newline @ ''3. Registering upload with Buffer...'')] w5"
      obtain r3 w7 where g3: "registerUpload e u k w6 = (r3, w7)" by fastforce
      have w6: "fs w6 = fs w" "calls w6 = calls w5" using s2 by (simp_all add: w6_def)
      note s3 = registerUpload_result [OF g3, unfolded w6]
      show ?thesis
      proof (cases r3)
        case (Inl err)
        with assms(2) Some ex g1 g2 g3 Inr uk r2 have "r = Inl err" "w' = w7"
          unfolding uploadVideo_def
          by (simp_all add: Let_def w2_def [symmetric] w4_def [symmetric]
                w6_def [symmetric])
        with s1 s2 s3 w2 Inl Inr r2 show ?thesis by (simp add: valid_trace_def stage_order_def)
      next
        case r3: (Inr resp)
        define w8 where "w8 = say [Txt (newline @ ''4. Creating post in Buffer...'')]
                                 (say [Txt (check_mark @ '' Upload registered, video ID:''),
                                       Val (optChain (getProp resp ''result'') ''upload_id'')] w7)"
        obtain r4 w9 where g4: "createPost e u resp t w8 = (r4, w9)" by fastforce
        have w8: "fs w8 = fs w" "calls w8 = calls w7" using s3 by (simp_all add: w8_def)
        note s4 = createPost_result [OF g4, unfolded w8]
        have fin: "r = (case r4 of Inl err \<Rightarrow> Inl err | Inr x \<Rightarrow> Inr ())"
             "fs w' = fs w9" "calls w' = calls w9"
          using assms(2) Some ex g1 g2 g3 g4 Inr uk r2 r3
          unfolding uploadVideo_def
          by (auto simp add: Let_def w2_def [symmetric] w4_def [symmetric]
                w6_def [symmetric] w8_def [symmetric] split: sum.splits)
        have isl: "isl r = isl r4" using fin(1) by (cases r4) auto
        show ?thesis
        proof (cases "truthy (getProp (getProp resp ''result'') ''details'')")
          case True
          with s1 s2 s3 s4 w2 Inr r2 r3 fin isl show ?thesis
            by (simp add: valid_trace_def stage_order_def)
        next
          case False
          with s1 s2 s3 s4 w2 Inr r2 r3 fin isl show ?thesis
            by (simp add: valid_trace_def stage_order_def)
        qed
      qed
    qed
  qed
qed

section \<open>Facts about the local steps\<close>

lemma read_dir_simps [simp]:
  "read_dir s uploadsDir = uploads_dir s"
  "read_dir s doneDir = done_dir s"
  "read_dir s Cwd = None"
  "read_dir s (Join uploadsDir f) = None"
  "read_dir s (Join doneDir f) = None"
  by (simp_all add: read_dir_def uploadsDir_def doneDir_def)

lemma write_dir_simps [simp]:
  "write_dir s uploadsDir es = s\<lparr>uploads_dir := Some es\<rparr>"
  "write_dir s doneDir es = s\<lparr>done_dir := Some es\<rparr>"
  by (simp_all add: write_dir_def uploadsDir_def doneDir_def)

lemma existsSync_dirs [simp]:
  "existsSync s uploadsDir = (uploads_dir s \<noteq> None)"
  "existsSync s doneDir = (done_dir s \<noteq> None)"
  by (auto simp add: existsSync_def) (simp_all add: uploadsDir_def doneDir_def)

lemma existsSync_in_uploads [simp]:
  "existsSync s (Join uploadsDir f) = (readFileSync s (Join uploadsDir f) \<noteq> None)"
  by (auto simp add: existsSync_def) (simp_all add: uploadsDir_def)

lemma map_of_remove_entry [simp]: "map_of (remove_entry f es) f = None"
  by (induction es) (auto simp: remove_entry_def)

lemma map_of_remove_entry_other: "g \<noteq> f \<Longrightarrow> map_of (remove_entry f es) g = map_of es g"
  by (induction es) (auto simp: remove_entry_def)

lemma hd_filter_in: "filter P xs \<noteq> [] \<Longrightarrow> hd (filter P xs) \<in> set xs \<and> P (hd (filter P xs))"
  by (induction xs) (auto split: if_splits)

lemma findVideoFile_none:
  assumes "video_files (fs w) = []"
  shows "fst (findVideoFile w) = None"
    and "calls (snd (findVideoFile w)) = calls w"
    and "fs (snd (findVideoFile w)) =
           (fs w)\<lparr>uploads_dir := Some (case uploads_dir (fs w) of None \<Rightarrow> [] | Some es \<Rightarrow> es)\<rparr>"
  using assms
  by (auto simp: findVideoFile_def video_files_def readdirSync_def mkdirSync_def Let_def
           split: option.splits)

lemma findVideoFile_some:
  assumes "video_files (fs w) \<noteq> []"
  shows "findVideoFile w = (Some (Join uploadsDir (hd (video_files (fs w)))), w)"
    and "readFileSync (fs w) (Join uploadsDir (hd (video_files (fs w)))) \<noteq> None"
    and "uploads_dir (fs w) \<noteq> None"
proof -
  from assms obtain es where es: "uploads_dir (fs w) = Some es"
    by (auto simp: video_files_def readdirSync_def split: option.splits)
  with assms show "findVideoFile w = (Some (Join uploadsDir (hd (video_files (fs w)))), w)"
    by (simp add: findVideoFile_def video_files_def readdirSync_def Let_def)
  from assms es have "hd (video_files (fs w)) \<in> set (map fst es)"
    using hd_filter_in [of is_mp4 "map fst es"]
    by (simp add: video_files_def readdirSync_def)
  then show "readFileSync (fs w) (Join uploadsDir (hd (video_files (fs w)))) \<noteq> None"
    using es by (auto simp: map_of_eq_None_iff)
  from es show "uploads_dir (fs w) \<noteq> None" by simp
qed

lemma getRandomCaption_world [simp]:
  "fs (snd (getRandomCaption e w)) = fs w"
  "calls (snd (getRandomCaption e w)) = calls w"
  by (auto simp: getRandomCaption_def split: captions_src.splits jsval.splits)

lemma moveVideoToDone_ok:
  assumes "readFileSync (fs w) (Join uploadsDir f) \<noteq> None"
  shows "\<exists>w'. moveVideoToDone (Join uploadsDir f) w = (Inr (), w') \<and> calls w' = calls w
            \<and> fs w' = moved f (fs w)"
  using assms
  by (auto simp: moveVideoToDone_def moved_def mkdirSync_def Let_def split: option.splits)

section \<open>The shape of a run\<close>

lemma start_simps [simp]: "fs (start e) = fs0 e" "calls (start e) = []" "console (start e) = []"
  by (simp_all add: start_def)

lemma ready_simps [simp]: "fs (ready e) = fs0 e" "calls (ready e) = []"
  by (simp_all add: ready_def)

lemma exit_failure_simps [simp]:
  "exit_code (exit_failure err w) = 1"
  "fs (after (exit_failure err w)) = fs w"
  "calls (after (exit_failure err w)) = calls w"
  by (simp_all add: exit_failure_def)

lemma main_no_video:
  assumes "video_files (fs0 e) = []"
  shows "exit_code (main e) = 0" and "calls (after (main e)) = []"
    and "fs (after (main e)) =
           (fs0 e)\<lparr>uploads_dir := Some (case uploads_dir (fs0 e) of None \<Rightarrow> [] | Some es \<Rightarrow> es)\<rparr>"
proof -
  from assms have v: "video_files (fs (start e)) = []" by simp
  obtain w1 where f: "findVideoFile (start e) = (None, w1)"
    using findVideoFile_none(1) [OF v] by (cases "findVideoFile (start e)") auto
  then have m: "main e = \<lparr>exit_code = 0, after = w1\<rparr>" by (simp add: main_def)
  from m show "exit_code (main e) = 0" by simp
  from m f findVideoFile_none(2) [OF v] show "calls (after (main e)) = []" by simp
  from m f findVideoFile_none(3) [OF v] show "fs (after (main e)) =
           (fs0 e)\<lparr>uploads_dir := Some (case uploads_dir (fs0 e) of None \<Rightarrow> [] | Some es \<Rightarrow> es)\<rparr>"
    by simp
qed

lemma main_found:
  assumes "video_files (fs0 e) \<noteq> []"
  shows "main e =
     (case new_BufferUploader (process_env e) of
        Inl err \<Rightarrow> exit_failure err (ready e)
      | Inr uploader \<Rightarrow>
          (case uploadVideo e uploader (candidate e) (caption_of e) (ready e) of
             (Inl err, w4) \<Rightarrow> exit_failure err w4
           | (Inr u, w4) \<Rightarrow>
               (case moveVideoToDone (candidate e) w4 of
                  (Inl err, w5) \<Rightarrow> exit_failure err w5
                | (Inr u', w5) \<Rightarrow>
                    \<lparr>exit_code = 0,
                     after = say [Txt (newline @ check_mark @ '' Process complete!'')] w5\<rparr>)))"
proof -
  from assms have v: "video_files (fs (start e)) \<noteq> []" by simp
  have f: "findVideoFile (start e) = (Some (candidate e), start e)"
    using findVideoFile_some(1) [OF v] by (simp add: candidate_def)
  obtain c w2 where g: "getRandomCaption e (start e) = (c, w2)" by fastforce
  then have cr: "caption_of e = c" "ready e = say [Txt ''Selected caption: '', Val c] w2"
    by (simp_all add: ready_def caption_of_def)
  show ?thesis
    unfolding main_def f cr by (simp add: g Let_def)
qed

lemma main_bad_creds:
  assumes "video_files (fs0 e) \<noteq> []" and "new_BufferUploader (process_env e) = Inl err"
  shows "exit_code (main e) = 1" and "calls (after (main e)) = []"
    and "fs (after (main e)) = fs0 e"
  using assms by (simp_all add: main_found)

lemma main_upload:
  assumes v: "video_files (fs0 e) \<noteq> []" and u: "new_BufferUploader (process_env e) = Inr u"
    and up: "uploadVideo e u (candidate e) (caption_of e) (ready e) = (r, w4)"
  shows "exit_code (main e) = (if isl r then 1 else 0)"
    and "calls (after (main e)) = calls w4"
    and "fs (after (main e)) = (if isl r then fs0 e else moved (hd (video_files (fs0 e))) (fs0 e))"
proof -
  note t = uploadVideo_trace [OF ready_simps(2) up]
  from t have fs4: "fs w4 = fs0 e" by simp
  from v have "video_files (fs (start e)) \<noteq> []" by simp
  from findVideoFile_some(2) [OF this]
  have rd: "readFileSync (fs w4) (Join uploadsDir (hd (video_files (fs0 e)))) \<noteq> None"
    by (simp add: fs4)
  from moveVideoToDone_ok [OF rd] obtain w5 where
    mv: "moveVideoToDone (candidate e) w4 = (Inr (), w5)" "calls w5 = calls w4"
        "fs w5 = moved (hd (video_files (fs0 e))) (fs0 e)"
    by (auto simp: candidate_def fs4)
  show "exit_code (main e) = (if isl r then 1 else 0)"
    using u up mv by (cases r) (simp_all add: main_found [OF v])
  show "calls (after (main e)) = calls w4"
    using u up mv by (cases r) (simp_all add: main_found [OF v])
  show "fs (after (main e)) = (if isl r then fs0 e else moved (hd (video_files (fs0 e))) (fs0 e))"
    using u up mv fs4 by (cases r) (simp_all add: main_found [OF v])
qed

lemma valid_trace_Nil [simp]: "valid_trace ok [] = (\<not> ok)"
  by (auto simp: valid_trace_def)

lemma main_exit: "exit_code (main e) = 0 \<or> exit_code (main e) = 1"
proof (cases "video_files (fs0 e) = []")
  case True
  then show ?thesis by (simp add: main_no_video)
next
  case False
  show ?thesis
  proof (cases "new_BufferUploader (process_env e)")
    case (Inl err)
    with False show ?thesis by (simp add: main_bad_creds)
  next
    case (Inr u)
    obtain r w4 where "uploadVideo e u (candidate e) (caption_of e) (ready e) = (r, w4)"
      by fastforce
    from main_upload(1) [OF False Inr this] show ?thesis by simp
  qed
qed

text \<open>
  The calls of a whole run have the shape \<open>valid_trace\<close>; the run made calls and exited
  with 0 exactly when the four stages succeeded.
\<close>

lemma main_trace:
  "valid_trace (exit_code (main e) = 0 \<and> calls (after (main e)) \<noteq> []) (calls (after (main e)))"
proof (cases "video_files (fs0 e) = []")
  case True
  then show ?thesis by (simp add: main_no_video)
next
  case False
  show ?thesis
  proof (cases "new_BufferUploader (process_env e)")
    case (Inl err)
    with False show ?thesis by (simp add: main_bad_creds)
  next
    case (Inr u)
    obtain r w4 where up: "uploadVideo e u (candidate e) (caption_of e) (ready e) = (r, w4)"
      by fastforce
    note t = uploadVideo_trace [OF ready_simps(2) up]
    note m = main_upload [OF False Inr up]
    from t have vt: "valid_trace (\<not> isl r) (calls w4)" by simp
    show ?thesis
    proof (cases "isl r")
      case True
      with vt m show ?thesis by simp
    next
      case False
      with vt have "calls w4 \<noteq> []" by (auto simp: valid_trace_def)
      with vt m False show ?thesis by simp
    qed
  qed
qed


section \<open>Stage failure and the life cycle of the video file\<close>


lemma valid_trace_failed_last:
  assumes "valid_trace ok cs" and "i < length cs" and "stage_failed (cs ! i)"
  shows "\<not> ok \<and> Suc i = length cs"
proof -
  from assms(2,3) have nall: "\<not> list_all (\<lambda>c. \<not> stage_failed c) cs"
    by (auto simp: list_all_length)
  have "\<not> i < length (butlast cs)"
  proof
    assume lt: "i < length (butlast cs)"
    with assms(1) have "\<not> stage_failed (butlast cs ! i)"
      by (auto simp: valid_trace_def list_all_length)
    with lt assms(3) show False by (simp add: nth_butlast)
  qed
  with assms(2) have "Suc i = length cs" by simp
  with assms(1) nall show ?thesis by (auto simp: valid_trace_def)
qed

text \<open>
  Claim C1. In every run, if the response to some call lacks the field its stage requires
  (the presign response has no truthy \<^verbatim>\<open>url\<close> or \<^verbatim>\<open>key\<close>, the registration response no
  truthy \<^verbatim>\<open>result\<close> with \<^verbatim>\<open>details\<close>), or the call got no 2xx response, then the run exits
  with status 1 and that call is the last one made: the stages invoked are exactly the
  stages up to the failing one, so no S3 PUT follows a failed presign, no registration a
  failed upload, no post creation a failed registration.
\<close>

theorem stage_failure_aborts_run:
  assumes "i < length (calls (after (main e)))"
    and "stage_failed (calls (after (main e)) ! i)"
  shows "exit_code (main e) = 1
    \<and> Suc i = length (calls (after (main e)))
    \<and> map fst (calls (after (main e))) = take (Suc i) stage_order"
proof -
  note vt = main_trace [of e]
  from valid_trace_failed_last [OF vt assms]
  have a: "\<not> (exit_code (main e) = 0 \<and> calls (after (main e)) \<noteq> [])"
    and b: "Suc i = length (calls (after (main e)))" by simp_all
  from assms(1) have "calls (after (main e)) \<noteq> []" by auto
  with a main_exit [of e] have "exit_code (main e) = 1" by auto
  moreover from vt b have "map fst (calls (after (main e))) = take (Suc i) stage_order"
    by (simp add: valid_trace_def)
  ultimately show ?thesis using b by simp
qed




section \<open>Registration, post creation and credentials\<close>








lemma new_BufferUploader_isl: "isl (new_BufferUploader penv) = required_missing penv"
  by (simp add: new_BufferUploader_def required_missing_def Let_def)

text \<open>
  Claim C5, as amended. Constructing the uploader fails exactly when a required credential
  (session cookie, organization id, channel id) is unset or empty; the user id plays no
  part in that. A run with a required credential missing makes no remote call; it exits
  with 1 when a video file was found, and with 0 when none was, since the credentials
  are examined only after the video file has been found.
\<close>

theorem credentials_checked_at_construction:
  "isl (new_BufferUploader penv) = required_missing penv
   \<and> required_missing (penv(''BUFFER_USER_ID'' := v)) = required_missing penv
   \<and> (required_missing (process_env e) \<longrightarrow>
        calls (after (main e)) = []
        \<and> exit_code (main e) = (if video_files (fs0 e) = [] then 0 else 1))"
proof (intro conjI impI)
  show "isl (new_BufferUploader penv) = required_missing penv"
    by (rule new_BufferUploader_isl)
  show "required_missing (penv(''BUFFER_USER_ID'' := v)) = required_missing penv"
    by (simp add: required_missing_def env_or_empty_def)
next
  assume "required_missing (process_env e)"
  then have "isl (new_BufferUploader (process_env e))" by (simp add: new_BufferUploader_isl)
  then obtain err where err: "new_BufferUploader (process_env e) = Inl err"
    by (cases "new_BufferUploader (process_env e)") auto
  show "calls (after (main e)) = []"
    by (cases "video_files (fs0 e) = []") (simp_all add: main_no_video main_bad_creds [OF _ err])
  show "exit_code (main e) = (if video_files (fs0 e) = [] then 0 else 1)"
    by (cases "video_files (fs0 e) = []") (simp_all add: main_no_video main_bad_creds [OF _ err])
qed

text \<open>
  Claim C6. A run whose intake directory holds no video file exits with status 0 and makes
  no remote call, whatever the credentials and the remote service; this includes the run
  that finds the intake directory absent and creates it.
\<close>

theorem no_video_exits_zero:
  assumes "video_files (fs0 e) = []"
  shows "exit_code (main e) = 0
    \<and> calls (after (main e)) = []
    \<and> uploads_dir (fs (after (main e)))
        = Some (case uploads_dir (fs0 e) of None \<Rightarrow> [] | Some es \<Rightarrow> es)"
  using main_no_video [OF assms] by simp

section \<open>Caption selection and the post payload\<close>




lemma postData_constants: "hard_coded_constants (channelId this) (postData this result details text)"
  by (simp add: hard_coded_constants_def postData_def)

lemma postData_text: "getProp (postData this result details text) ''text'' = text"
  by (simp add: postData_def)

lemma post_args_post_request_of:
  "post_args (post_request_of u resp t)
     = postData u (getProp resp ''result'') (getProp (getProp resp ''result'') ''details'')
         (text_or_default t)"
  by (simp add: post_args_def post_request_of_def post_request_def)

lemma main_post_calls:
  assumes "c \<in> set (calls (after (main e)))" and "fst c = CreatePost"
  shows "\<exists>u resp. new_BufferUploader (process_env e) = Inr u
           \<and> fst (snd c) = post_request_of u resp (caption_of e)"
proof (cases "video_files (fs0 e) = []")
  case True
  with assms show ?thesis by (simp add: main_no_video)
next
  case False
  show ?thesis
  proof (cases "new_BufferUploader (process_env e)")
    case (Inl err)
    with False assms show ?thesis by (simp add: main_bad_creds)
  next
    case (Inr u)
    obtain r w4 where up: "uploadVideo e u (candidate e) (caption_of e) (ready e) = (r, w4)"
      by fastforce
    note t = uploadVideo_trace [OF ready_simps(2) up]
    from main_upload(2) [OF False Inr up] assms have "c \<in> set (calls w4)" by simp
    with t assms(2) have "fst (snd c) \<in> range (\<lambda>resp. post_request_of u resp (caption_of e))"
      by blast
    with Inr show ?thesis by auto
  qed
qed

lemma new_BufferUploader_channel:
  "new_BufferUploader penv = Inr u \<Longrightarrow> channelId u = env_or_empty penv ''BUFFER_CHANNEL_ID''"
  by (auto simp: new_BufferUploader_def Let_def split: if_splits)

text \<open>
  Claim C9. For every registration result, details and caption text, the post payload
  has share mode "shareNow", \<^verbatim>\<open>now\<close> true, \<^verbatim>\<open>is_draft\<close> false, update type "reels" and the
  channel id as its only profile id, and carries the text it was given. In every run,
  every post creation request carries a payload with these constants, for the channel id
  of the environment, and the selected caption as its text.
\<close>

theorem post_payload_constants:
  "hard_coded_constants (channelId this) (postData this result details text)
   \<and> getProp (postData this result details text) ''text'' = text
   \<and> (\<forall>c \<in> set (calls (after (main e))). fst c = CreatePost \<longrightarrow>
        hard_coded_constants (env_or_empty (process_env e) ''BUFFER_CHANNEL_ID'')
          (post_args (fst (snd c)))
        \<and> getProp (post_args (fst (snd c))) ''text'' = text_or_default (caption_of e))"
proof (intro conjI ballI impI)
  show "hard_coded_constants (channelId this) (postData this result details text)"
    by (rule postData_constants)
  show "getProp (postData this result details text) ''text'' = text"
    by (rule postData_text)
next
  fix c assume c: "c \<in> set (calls (after (main e)))" "fst c = CreatePost"
  from main_post_calls [OF c] obtain u resp where
    u: "new_BufferUploader (process_env e) = Inr u"
    and rq: "fst (snd c) = post_request_of u resp (caption_of e)" by blast
  from rq postData_constants [of u] new_BufferUploader_channel [OF u]
  show "hard_coded_constants (env_or_empty (process_env e) ''BUFFER_CHANNEL_ID'')
          (post_args (fst (snd c)))"
    by (simp add: post_args_post_request_of)
  from rq show "getProp (post_args (fst (snd c))) ''text'' = text_or_default (caption_of e)"
    by (simp add: post_args_post_request_of postData_text)
qed

section \<open>Video selection, directories, and the unused user id\<close>

lemma video_files_created [simp]:
  "video_files (s\<lparr>uploads_dir := Some []\<rparr>) = []"
  by (simp add: video_files_def readdirSync_def)

lemma video_files_absent: "uploads_dir s = None \<Longrightarrow> video_files s = []"
  by (simp add: video_files_def readdirSync_def)

lemma main_first_call:
  assumes v: "video_files (fs0 e) \<noteq> []" and u: "new_BufferUploader (process_env e) = Inr u"
  shows "take 1 (calls (after (main e))) =
           [(Presign, presign_request u (hd (video_files (fs0 e))) (mimeType_of e (candidate e)),
             remote e (presign_request u (hd (video_files (fs0 e))) (mimeType_of e (candidate e))))]"
proof -
  obtain r w4 where up: "uploadVideo e u (candidate e) (caption_of e) (ready e) = (r, w4)"
    by fastforce
  note t = uploadVideo_trace [OF ready_simps(2) up]
  from v have "video_files (fs (start e)) \<noteq> []" by simp
  from findVideoFile_some(2) [OF this]
  have "readFileSync (fs (ready e)) (candidate e) \<noteq> None" by (simp add: candidate_def)
  with t main_upload(2) [OF v u up] show ?thesis by (simp add: candidate_def)
qed

text \<open>
  Claim C8. When the intake directory holds exactly one video file, \<^verbatim>\<open>findVideoFile\<close>
  selects it, and with valid credentials the first remote call is the presign request for
  that file. \<^verbatim>\<open>findVideoFile\<close> leaves the intake directory present: created empty when
  absent, untouched otherwise; run again on the result it changes nothing and returns
  the same, and a run started with the directory already created behaves as the run
  that created it. \<^verbatim>\<open>moveVideoToDone\<close> does not fail on a file of the intake directory
  whether or not the completion directory exists: it creates the directory when absent,
  keeps the other entries when present, and starting with an empty completion directory
  gives the same as starting with none.
\<close>

theorem single_video_selected_dirs_created:
  "(video_files (fs0 e) = [f] \<longrightarrow>
      findVideoFile (start e) = (Some (Join uploadsDir f), start e)
      \<and> (\<forall>u. new_BufferUploader (process_env e) = Inr u \<longrightarrow>
           take 1 (calls (after (main e))) =
             [(Presign, presign_request u f (mimeType_of e (Join uploadsDir f)),
               remote e (presign_request u f (mimeType_of e (Join uploadsDir f))))]))
   \<and> uploads_dir (fs (snd (findVideoFile w)))
       = Some (case uploads_dir (fs w) of None \<Rightarrow> [] | Some es \<Rightarrow> es)
   \<and> fs (snd (findVideoFile (snd (findVideoFile w)))) = fs (snd (findVideoFile w))
   \<and> fst (findVideoFile (snd (findVideoFile w))) = fst (findVideoFile w)
   \<and> (uploads_dir (fs0 e) = None \<longrightarrow>
        exit_code (main (e\<lparr>fs0 := (fs0 e)\<lparr>uploads_dir := Some []\<rparr>\<rparr>)) = exit_code (main e)
        \<and> calls (after (main (e\<lparr>fs0 := (fs0 e)\<lparr>uploads_dir := Some []\<rparr>\<rparr>))) = calls (after (main e))
        \<and> fs (after (main (e\<lparr>fs0 := (fs0 e)\<lparr>uploads_dir := Some []\<rparr>\<rparr>))) = fs (after (main e)))
   \<and> (readFileSync (fs w) (Join uploadsDir f) = Some c \<longrightarrow>
        fst (moveVideoToDone (Join uploadsDir f) w) = Inr ()
        \<and> done_dir (fs (snd (moveVideoToDone (Join uploadsDir f) w)))
            = Some (remove_entry f (case done_dir (fs w) of None \<Rightarrow> [] | Some des \<Rightarrow> des) @ [(f, c)]))
   \<and> (done_dir (fs w) = None \<longrightarrow>
        moveVideoToDone p (w\<lparr>fs := (fs w)\<lparr>done_dir := Some []\<rparr>\<rparr>) = moveVideoToDone p w)"
proof (intro conjI impI allI)
  assume one: "video_files (fs0 e) = [f]"
  then have ne: "video_files (fs (start e)) \<noteq> []" by simp
  from findVideoFile_some(1) [OF ne] one
  show "findVideoFile (start e) = (Some (Join uploadsDir f), start e)" by simp
  fix u assume u: "new_BufferUploader (process_env e) = Inr u"
  from one have v: "video_files (fs0 e) \<noteq> []" by simp
  from main_first_call [OF v u] one
  show "take 1 (calls (after (main e))) =
             [(Presign, presign_request u f (mimeType_of e (Join uploadsDir f)),
               remote e (presign_request u f (mimeType_of e (Join uploadsDir f))))]"
    by (simp add: candidate_def)
next
  show a: "uploads_dir (fs (snd (findVideoFile w)))
       = Some (case uploads_dir (fs w) of None \<Rightarrow> [] | Some es \<Rightarrow> es)"
    by (auto simp: findVideoFile_def mkdirSync_def Let_def split: option.splits)
  have b: "uploads_dir (fs w) \<noteq> None \<Longrightarrow> fs (snd (findVideoFile w)) = fs w"
    by (auto simp: findVideoFile_def Let_def)
  have c: "uploads_dir (fs w) = None \<Longrightarrow> findVideoFile (snd (findVideoFile w)) =
             (None, snd (findVideoFile w))"
    by (simp add: findVideoFile_def mkdirSync_def readdirSync_def Let_def)
  have d: "uploads_dir (fs w) = None \<Longrightarrow> fst (findVideoFile w) = None"
    by (simp add: findVideoFile_def)
  have e: "uploads_dir (fs w) \<noteq> None \<Longrightarrow> findVideoFile (snd (findVideoFile w)) = findVideoFile w"
    by (auto simp: findVideoFile_def Let_def)
  show "fs (snd (findVideoFile (snd (findVideoFile w)))) = fs (snd (findVideoFile w))"
    using c e by (cases "uploads_dir (fs w) = None") simp_all
  show "fst (findVideoFile (snd (findVideoFile w))) = fst (findVideoFile w)"
    using c d e by (cases "uploads_dir (fs w) = None") simp_all
next
  let ?e' = "e\<lparr>fs0 := (fs0 e)\<lparr>uploads_dir := Some []\<rparr>\<rparr>"
  assume n: "uploads_dir (fs0 e) = None"
  have v': "video_files (fs0 ?e') = []" by simp
  note v = video_files_absent [OF n]
  show "exit_code (main ?e') = exit_code (main e)"
    by (simp only: main_no_video(1) [OF v] main_no_video(1) [OF v'])
  show "calls (after (main ?e')) = calls (after (main e))"
    by (simp only: main_no_video(2) [OF v] main_no_video(2) [OF v'])
  show "fs (after (main ?e')) = fs (after (main e))"
    using n by (simp add: main_no_video(3) [OF v] main_no_video(3) [OF v'])
next
  assume r: "readFileSync (fs w) (Join uploadsDir f) = Some c"
  then have "readFileSync (fs w) (Join uploadsDir f) \<noteq> None" by simp
  from moveVideoToDone_ok [OF this] obtain w' where
    w': "moveVideoToDone (Join uploadsDir f) w = (Inr (), w')" "fs w' = moved f (fs w)" by blast
  from w' show "fst (moveVideoToDone (Join uploadsDir f) w) = Inr ()" by simp
  from w' r show "done_dir (fs (snd (moveVideoToDone (Join uploadsDir f) w)))
            = Some (remove_entry f (case done_dir (fs w) of None \<Rightarrow> [] | Some des \<Rightarrow> des) @ [(f, c)])"
    by (simp add: moved_def)
next
  assume "done_dir (fs w) = None"
  then show "moveVideoToDone p (w\<lparr>fs := (fs w)\<lparr>done_dir := Some []\<rparr>\<rparr>) = moveVideoToDone p w"
    by (simp add: moveVideoToDone_def mkdirSync_def)
qed

lemma new_BufferUploader_user_id:
  "new_BufferUploader (penv(''BUFFER_USER_ID'' := v)) =
     map_sum id (\<lambda>u. u\<lparr>userId := env_or_empty (penv(''BUFFER_USER_ID'' := v)) ''BUFFER_USER_ID''\<rparr>)
       (new_BufferUploader penv)"
  by (simp add: new_BufferUploader_def env_or_empty_def Let_def)

lemma requests_ignore_user_id:
  "presign_request (u\<lparr>userId := x\<rparr>) f m = presign_request u f m"
  "register_request (u\<lparr>userId := x\<rparr>) k = register_request u k"
  "post_request (u\<lparr>userId := x\<rparr>) pd = post_request u pd"
  "postData (u\<lparr>userId := x\<rparr>) r d t = postData u r d t"
  by (simp_all add: presign_request_def register_request_def post_request_def postData_def
        composer_headers_def)

lemma axios_ignores_process_env: "axios (e\<lparr>process_env := pe\<rparr>) = axios e"
  by (simp add: axios_def fun_eq_iff)

lemma mimeType_of_ignores_process_env:
  "mimeType_of (e\<lparr>process_env := pe\<rparr>) p = mimeType_of e p"
  by (simp add: mimeType_of_def)

lemma stages_ignore_user_id:
  "getS3PreSignedURL (e\<lparr>process_env := pe\<rparr>) (u\<lparr>userId := x\<rparr>) f m w = getS3PreSignedURL e u f m w"
  "uploadToS3 (e\<lparr>process_env := pe\<rparr>) pu p m w = uploadToS3 e pu p m w"
  "registerUpload (e\<lparr>process_env := pe\<rparr>) (u\<lparr>userId := x\<rparr>) k w = registerUpload e u k w"
  "createPost (e\<lparr>process_env := pe\<rparr>) (u\<lparr>userId := x\<rparr>) resp t w = createPost e u resp t w"
  unfolding getS3PreSignedURL_def uploadToS3_def registerUpload_def createPost_def
    axios_ignores_process_env requests_ignore_user_id
  by (rule refl)+

lemma uploadVideo_ignores_user_id:
  "uploadVideo (e\<lparr>process_env := pe\<rparr>) (u\<lparr>userId := x\<rparr>) p t w = uploadVideo e u p t w"
  unfolding uploadVideo_def stages_ignore_user_id mimeType_of_ignores_process_env
  by (rule refl)

lemma getRandomCaption_ignores_process_env:
  "getRandomCaption (e\<lparr>process_env := pe\<rparr>) w = getRandomCaption e w"
proof -
  have r: "random (e\<lparr>process_env := pe\<rparr>) = random e" by simp
  show ?thesis unfolding getRandomCaption_def r by (rule refl)
qed

text \<open>
  Changing the user id of an environment does not change its run.
\<close>

lemma main_ignores_user_id:
  "main (e\<lparr>process_env := (process_env e)(''BUFFER_USER_ID'' := v)\<rparr>) = main e"
proof -
  let ?e' = "e\<lparr>process_env := (process_env e)(''BUFFER_USER_ID'' := v)\<rparr>"
  have s: "start ?e' = start e" by (simp add: start_def)
  show ?thesis
  proof (cases "new_BufferUploader (process_env e)")
    case (Inl err)
    then show ?thesis
      unfolding main_def s getRandomCaption_ignores_process_env
      by (simp add: new_BufferUploader_user_id split: prod.splits option.splits)
  next
    case (Inr u)
    then show ?thesis
      unfolding main_def s getRandomCaption_ignores_process_env
      by (simp add: new_BufferUploader_user_id uploadVideo_ignores_user_id
            split: prod.splits option.splits)
  qed
qed

text \<open>
  Claim C10. The user id is read and stored, and nothing else: two runs whose environments
  differ only in the value of \<^verbatim>\<open>BUFFER_USER_ID\<close> (set, unset or changed), with the same file
  system, random draw and remote service, are the same run: the same exit status, remote
  calls, console output and file system.
\<close>

theorem user_id_never_used:
  assumes "\<forall>k. k \<noteq> ''BUFFER_USER_ID'' \<longrightarrow> process_env e1 k = process_env e2 k"
    and "fs0 e1 = fs0 e2" and "random e1 = random e2"
    and "mime_lookup e1 = mime_lookup e2" and "remote e1 = remote e2"
  shows "main e1 = main e2"
proof -
  from assms(1)
  have "process_env e1 = (process_env e2)(''BUFFER_USER_ID'' := process_env e1 ''BUFFER_USER_ID'')"
    by (auto simp: fun_eq_iff)
  with assms(2-5)
  have "e1 = e2\<lparr>process_env := (process_env e2)(''BUFFER_USER_ID'' := process_env e1 ''BUFFER_USER_ID'')\<rparr>"
    by (cases e1, cases e2) simp
  then show ?thesis using main_ignores_user_id [of e2 "process_env e1 ''BUFFER_USER_ID''"] by simp
qed

section \<open>Concrete runs\<close>

lemma is_mp4_examples: "is_mp4 ''clip.MP4''" "\<not> is_mp4 ''notes.txt''"
  by code_simp+

lemmas run_defs =
  main_def start_def findVideoFile_def readdirSync_def mkdirSync_def
  getRandomCaption_def elemAt_def randomIndex_def new_BufferUploader_def env_or_empty_def
  uploadVideo_def mimeType_of_def getS3PreSignedURL_def axios_def presigned_def optChain_def
  uploadToS3_def registerUpload_def createPost_def text_or_default_def moveVideoToDone_def
  exit_failure_def Let_def remove_entry_def
  presign_request_def s3_request_def register_request_def post_request_def
  video_files_def is_mp4_examples

lemmas example_defs =
  demo_env_def demo_remote_def demo_fs_def demo_penv_def good_presign_def demo_record_def

text \<open>
  A run whose presign response has a key and no url: one call, exit status 1.
\<close>

theorem stage_failure_aborts_run_witness:
  "0 < length (calls (after (main no_url_env)))
   \<and> stage_failed (calls (after (main no_url_env)) ! 0)
   \<and> exit_code (main no_url_env) = 1
   \<and> Suc 0 = length (calls (after (main no_url_env)))
   \<and> map fst (calls (after (main no_url_env))) = take (Suc 0) stage_order"
proof -
  note defs = run_defs example_defs no_url_env_def
  have h: "0 < length (calls (after (main no_url_env)))"
    "stage_failed (calls (after (main no_url_env)) ! 0)"
    by (simp_all add: defs)
  from stage_failure_aborts_run [OF h] h show ?thesis by simp
qed




text \<open>
  Claim C4. The registration response is declared as either a media response or a media
  response wrapped in one more \<^verbatim>\<open>result\<close>; \<^verbatim>\<open>registerUpload\<close> returns the body as it is
  in both cases. On the wrapped variant the run therefore stops in \<^verbatim>\<open>createPost\<close>, which
  finds no \<^verbatim>\<open>details\<close> under the outer \<^verbatim>\<open>result\<close>: exit status 1, no post creation call.
  The same media record under a single \<^verbatim>\<open>result\<close> is accepted.
\<close>

theorem double_nested_registration_rejected:
  "exit_code (main double_nested_env) = 1
   \<and> map fst (calls (after (main double_nested_env))) = [Presign, S3Put, Register]
   \<and> snd (snd (calls (after (main double_nested_env)) ! 2)) = Response double_nested
   \<and> last (console (after (main double_nested_env)))
       = [Txt ''Error:'', Txt ''Video details not found in upload response'']
   \<and> exit_code (main ok_env) = 0
   \<and> map fst (calls (after (main ok_env))) = [Presign, S3Put, Register, CreatePost]"
  by (simp add: run_defs example_defs double_nested_def double_nested_env_def ok_env_def)

text \<open>
  Claim C5 as stated fails: with every credential missing and no video file in the intake
  directory, nothing fails and the run exits with 0.
\<close>

theorem startup_without_credentials_exits_zero:
  "required_missing (process_env no_credentials_env)
   \<and> exit_code (main no_credentials_env) = 0"
  by (simp add: run_defs example_defs no_credentials_env_def empty_fs_def ok_env_def required_missing_def)

text \<open>
  With a video file present and no credentials the run exits with 1 and makes no call;
  the credentials without a user id are accepted.
\<close>

theorem credentials_checked_at_construction_witness:
  "required_missing (process_env video_no_credentials_env)
   \<and> isl (new_BufferUploader (process_env video_no_credentials_env))
   \<and> calls (after (main video_no_credentials_env)) = []
   \<and> exit_code (main video_no_credentials_env) = 1
   \<and> \<not> required_missing (demo_penv(''BUFFER_USER_ID'' := None))
   \<and> \<not> isl (new_BufferUploader demo_penv)"
proof -
  note defs = run_defs example_defs video_no_credentials_env_def ok_env_def required_missing_def
  have h1: "required_missing (process_env video_no_credentials_env)" by (simp add: defs)
  have h2: "video_files (fs0 video_no_credentials_env) \<noteq> []" by (simp add: defs)
  have h3: "\<not> required_missing demo_penv" by (simp add: defs)
  from credentials_checked_at_construction
         [of "process_env video_no_credentials_env" None video_no_credentials_env]
       credentials_checked_at_construction [of demo_penv None video_no_credentials_env]
       h1 h2 h3
  show ?thesis by simp
qed

text \<open>
  A run that finds no intake directory creates it and exits with 0.
\<close>

theorem no_video_exits_zero_witness:
  "video_files (fs0 fresh_env) = []
   \<and> exit_code (main fresh_env) = 0
   \<and> calls (after (main fresh_env)) = []
   \<and> uploads_dir (fs (after (main fresh_env))) = Some []"
proof -
  note defs = run_defs example_defs fresh_env_def ok_env_def
  have h: "video_files (fs0 fresh_env) = []" by (simp add: defs)
  have u: "uploads_dir (fs0 fresh_env) = None" by (simp add: defs)
  from no_video_exits_zero [OF h] h u show ?thesis by simp
qed


text \<open>
  The example intake directory has the one video \<^verbatim>\<open>clip.MP4\<close>; both directories are
  created when absent.
\<close>

theorem single_video_selected_dirs_created_witness:
  "video_files (fs0 ok_env) = [''clip.MP4'']
   \<and> findVideoFile (start ok_env) = (Some (Join uploadsDir ''clip.MP4''), start ok_env)
   \<and> take 1 (calls (after (main ok_env))) =
        [(Presign, presign_request demo_uploader ''clip.MP4'' ''video/mp4'',
          Response good_presign)]
   \<and> uploads_dir (fs0 fresh_env) = None
   \<and> uploads_dir (fs (snd (findVideoFile (start fresh_env)))) = Some []
   \<and> exit_code (main (fresh_env\<lparr>fs0 := (fs0 fresh_env)\<lparr>uploads_dir := Some []\<rparr>\<rparr>)) = exit_code (main fresh_env)
   \<and> done_dir (fs (start ok_env)) = None
   \<and> fst (moveVideoToDone (Join uploadsDir ''clip.MP4'') (start ok_env)) = Inr ()
   \<and> done_dir (fs (snd (moveVideoToDone (Join uploadsDir ''clip.MP4'') (start ok_env))))
        = Some [(''clip.MP4'', ''abc'')]"
proof -
  note defs = run_defs example_defs ok_env_def fresh_env_def demo_uploader_def
  have v: "video_files (fs0 ok_env) = [''clip.MP4'']" by (simp add: defs)
  have u: "new_BufferUploader (process_env ok_env) = Inr demo_uploader" by (simp add: defs)
  have m: "mimeType_of ok_env (Join uploadsDir ''clip.MP4'') = ''video/mp4''"
    by (simp add: defs)
  have p: "remote ok_env (presign_request demo_uploader ''clip.MP4'' ''video/mp4'')
             = Response good_presign"
    by (simp add: defs)
  have n: "uploads_dir (fs0 fresh_env) = None" "uploads_dir (fs (start fresh_env)) = None"
    by (simp_all add: defs)
  have d: "done_dir (fs (start ok_env)) = None" by (simp add: defs)
  have r: "readFileSync (fs (start ok_env)) (Join uploadsDir ''clip.MP4'') = Some ''abc''"
    by (simp add: defs)
  note t1 = single_video_selected_dirs_created
              [of ok_env "''clip.MP4''" "start ok_env" "''abc''" "Join uploadsDir ''clip.MP4''"]
  note t2 = single_video_selected_dirs_created [of fresh_env _ "start fresh_env"]
  from t1 v u m p have first: "take 1 (calls (after (main ok_env))) =
        [(Presign, presign_request demo_uploader ''clip.MP4'' ''video/mp4'', Response good_presign)]"
    by simp
  from t1 v have found: "findVideoFile (start ok_env) = (Some (Join uploadsDir ''clip.MP4''), start ok_env)"
    by simp
  from t2 n have cr: "uploads_dir (fs (snd (findVideoFile (start fresh_env)))) = Some []"
    "exit_code (main (fresh_env\<lparr>fs0 := (fs0 fresh_env)\<lparr>uploads_dir := Some []\<rparr>\<rparr>)) = exit_code (main fresh_env)"
    by simp_all
  from t1 r d have mv: "fst (moveVideoToDone (Join uploadsDir ''clip.MP4'') (start ok_env)) = Inr ()"
    "done_dir (fs (snd (moveVideoToDone (Join uploadsDir ''clip.MP4'') (start ok_env))))
        = Some [(''clip.MP4'', ''abc'')]"
    by (simp_all add: remove_entry_def)
  from v found first n(1) cr d mv show ?thesis by simp
qed

text \<open>
  The fourth call of the successful run is the post creation, with the constants.
\<close>

theorem post_payload_constants_witness:
  "calls (after (main ok_env)) ! 3 \<in> set (calls (after (main ok_env)))
   \<and> fst (calls (after (main ok_env)) ! 3) = CreatePost
   \<and> hard_coded_constants ''chan1'' (post_args (fst (snd (calls (after (main ok_env)) ! 3))))
   \<and> getProp (post_args (fst (snd (calls (after (main ok_env)) ! 3)))) ''text'' = JStr ''B''"
proof -
  note defs = run_defs example_defs ok_env_def
  have m: "calls (after (main ok_env)) ! 3 \<in> set (calls (after (main ok_env)))"
    "fst (calls (after (main ok_env)) ! 3) = CreatePost"
    by (simp_all add: defs)
  have ch: "env_or_empty (process_env ok_env) ''BUFFER_CHANNEL_ID'' = ''chan1''"
    by (simp add: defs)
  have cap: "text_or_default (caption_of ok_env) = JStr ''B''"
    by (simp add: caption_of_def defs)
  from post_payload_constants [of demo_uploader JNull JNull JNull ok_env] m ch cap
  show ?thesis by auto
qed

text \<open>
  Setting a user id in the example environment changes nothing of the run.
\<close>

theorem user_id_never_used_witness:
  "process_env (ok_env\<lparr>process_env := (process_env ok_env)(''BUFFER_USER_ID'' \<mapsto> ''user42'')\<rparr>)
       ''BUFFER_USER_ID'' = Some ''user42''
   \<and> process_env ok_env ''BUFFER_USER_ID'' = None
   \<and> main (ok_env\<lparr>process_env := (process_env ok_env)(''BUFFER_USER_ID'' \<mapsto> ''user42'')\<rparr>)
       = main ok_env"
proof -
  have n: "process_env ok_env ''BUFFER_USER_ID'' = None"
    by (simp add: ok_env_def demo_env_def demo_penv_def)
  have "main (ok_env\<lparr>process_env := (process_env ok_env)(''BUFFER_USER_ID'' \<mapsto> ''user42'')\<rparr>)
          = main ok_env"
    by (rule user_id_never_used) simp_all
  with n show ?thesis by simp
qed

end
